theory Spec2Isabelle
  imports Complex_Main "HOL-Library.Char_ord" "HOL-Library.List_Lexorder"
begin

section \<open>Python strings\<close>

text \<open>
  A Python \<open>str\<close> is modelled as a \<open>string\<close>, the list of its code points, a \<open>char\<close>
  being a code point below 256. On these code points the definitions below are what
  Python computes: \<open>str.isspace\<close> and the regular-expression class \<open>\s\<close> accept the
  twelve characters of \<open>is_space\<close>; \<open>\d\<close> and \<open>[0-9]\<close> accept the ten decimal digits;
  \<open>str.isdigit\<close> accepts these and the superscripts two, three and one; \<open>str.lower\<close>
  changes the letters \<open>A\<close> to \<open>Z\<close> and the accented capitals \<open>0xC0\<close> to \<open>0xDE\<close> other
  than the multiplication sign \<open>0xD7\<close>. The length of the list is Python's \<open>len\<close>, and
  the order of \<open>char\<close> is the order of the code points.
\<close>

definition newline :: char where
  "newline = CHR 0x0A"

definition is_space :: "char \<Rightarrow> bool" where
  "is_space c = (c \<in> set [CHR 0x09, CHR 0x0A, CHR 0x0B, CHR 0x0C, CHR 0x0D,
                            CHR 0x1C, CHR 0x1D, CHR 0x1E, CHR 0x1F, CHR 0x20,
                            CHR 0x85, CHR 0xA0])"

definition is_digit :: "char \<Rightarrow> bool" where
  "is_digit c = (c \<in> set ''0123456789'')"

definition is_str_digit :: "char \<Rightarrow> bool" where
  "is_str_digit c = (is_digit c \<or> c \<in> set [CHR 0xB2, CHR 0xB3, CHR 0xB9])"

definition is_digit_or_comma :: "char \<Rightarrow> bool" where
  "is_digit_or_comma c = (is_digit c \<or> c = CHR '','')"

definition lower_char :: "char \<Rightarrow> char" where
  "lower_char c =
     (case map_of
        (zip (''ABCDEFGHIJKLMNOPQRSTUVWXYZ''
              @ [CHR 0xC0, CHR 0xC1, CHR 0xC2, CHR 0xC3, CHR 0xC4, CHR 0xC5, CHR 0xC6, CHR 0xC7,
                 CHR 0xC8, CHR 0xC9, CHR 0xCA, CHR 0xCB, CHR 0xCC, CHR 0xCD, CHR 0xCE, CHR 0xCF,
                 CHR 0xD0, CHR 0xD1, CHR 0xD2, CHR 0xD3, CHR 0xD4, CHR 0xD5, CHR 0xD6, CHR 0xD8,
                 CHR 0xD9, CHR 0xDA, CHR 0xDB, CHR 0xDC, CHR 0xDD, CHR 0xDE])
             (''abcdefghijklmnopqrstuvwxyz''
              @ [CHR 0xE0, CHR 0xE1, CHR 0xE2, CHR 0xE3, CHR 0xE4, CHR 0xE5, CHR 0xE6, CHR 0xE7,
                 CHR 0xE8, CHR 0xE9, CHR 0xEA, CHR 0xEB, CHR 0xEC, CHR 0xED, CHR 0xEE, CHR 0xEF,
                 CHR 0xF0, CHR 0xF1, CHR 0xF2, CHR 0xF3, CHR 0xF4, CHR 0xF5, CHR 0xF6, CHR 0xF8,
                 CHR 0xF9, CHR 0xFA, CHR 0xFB, CHR 0xFC, CHR 0xFD, CHR 0xFE])) c of
        None \<Rightarrow> c
      | Some d \<Rightarrow> d)"

text \<open>\<open>s.lower()\<close>\<close>

definition lower :: "string \<Rightarrow> string" where
  "lower s = map lower_char s"

text \<open>\<open>hay.startswith(needle)\<close> and \<open>needle in hay\<close>\<close>

fun starts_with :: "string \<Rightarrow> string \<Rightarrow> bool" where
  "starts_with [] hay = True"
| "starts_with (p # ps) [] = False"
| "starts_with (p # ps) (c # cs) = (p = c \<and> starts_with ps cs)"

fun py_in :: "string \<Rightarrow> string \<Rightarrow> bool" where
  "py_in needle [] = (needle = [])"
| "py_in needle (c # cs) = (starts_with needle (c # cs) \<or> py_in needle cs)"

text \<open>\<open>s.strip()\<close>, \<open>s.isdigit()\<close>, \<open>s.replace(c, r)\<close> for a one-character \<open>c\<close>\<close>

definition strip :: "string \<Rightarrow> string" where
  "strip s = rev (dropWhile is_space (rev (dropWhile is_space s)))"

definition isdigit :: "string \<Rightarrow> bool" where
  "isdigit s = (s \<noteq> [] \<and> list_all is_str_digit s)"

definition replace_char :: "char \<Rightarrow> string \<Rightarrow> string \<Rightarrow> string" where
  "replace_char c r s = concat (map (\<lambda>x. if x = c then r else [x]) s)"

text \<open>\<open>s.rsplit(" ", 1)[0]\<close>: what precedes the last space, or all of \<open>s\<close> without one\<close>

definition rsplit1_head :: "string \<Rightarrow> string" where
  "rsplit1_head s =
     (if CHR '' '' \<in> set s then rev (tl (dropWhile (\<lambda>c. c \<noteq> CHR '' '') (rev s))) else s)"

text \<open>\<open>str(n)\<close> for a non-negative and for any integer\<close>

fun str_nat :: "nat \<Rightarrow> string" where
  "str_nat n =
     (if n < 10 then [''0123456789'' ! n]
      else str_nat (n div 10) @ [''0123456789'' ! (n mod 10)])"

declare str_nat.simps [simp del]

definition str_int :: "int \<Rightarrow> string" where
  "str_int i = (if i < 0 then CHR ''-'' # str_nat (nat (- i)) else str_nat (nat i))"

text \<open>\<open>xs[:n]\<close> for an integer \<open>n\<close>: a negative \<open>n\<close> counts from the end\<close>

definition py_take :: "int \<Rightarrow> 'a list \<Rightarrow> 'a list" where
  "py_take n xs = (if 0 \<le> n then take (nat n) xs else take (length xs - nat (- n)) xs)"


section \<open>app/rag_chain.py\<close>

subsection \<open>Retrieved chunks\<close>

text \<open>
  A retrieved chunk is the dict \<open>{"text", "meta", "score"}\<close> that \<open>retrieve\<close> builds. The
  metadata dict has the four keys the indexer writes; the composer reads \<open>doc_id\<close> and
  \<open>type\<close> through \<open>.get(key, "")\<close>, so each key is optional and \<open>None\<close> is an absent
  key. The score is the store's distance; it is modelled as a real number (no NaN).
\<close>

record meta =
  source :: "string option"
  chunk_ix :: "nat option"
  doc_id :: "string option"
  mtype :: "string option"

record chunk =
  ch_text :: string
  ch_meta :: meta
  ch_score :: real

definition CHUNK_MAX_CHARS :: nat where
  "CHUNK_MAX_CHARS = 800"

definition company_keywords :: "string list" where
  "company_keywords = [''company'', ''overview'', ''summary'', ''profile'', ''about'',
                       ''headquarters'', ''sector'', ''industry'']"

definition numeric_keywords :: "string list" where
  "numeric_keywords = [''close'', ''open'', ''volume'', ''high'', ''low'', ''price'']"

definition shorten_text :: "string \<Rightarrow> nat \<Rightarrow> string" where
  "shorten_text text max_chars =
     (if text = [] then []
      else if length text \<le> max_chars then text
      else rsplit1_head (take max_chars text) @ '' ...'')"

definition get_or_None :: "string option \<Rightarrow> string" where
  "get_or_None v = (case v of None \<Rightarrow> ''None'' | Some s \<Rightarrow> s)"

definition format_context :: "chunk list \<Rightarrow> string" where
  "format_context chunks =
     (let lines = map (\<lambda>(i, ch).
            ''['' @ str_nat i @ ''] '' @ get_or_None (doc_id (ch_meta ch)) @ '' | ''
            @ get_or_None (mtype (ch_meta ch)) @ '':'' @ [newline]
            @ shorten_text (ch_text ch) CHUNK_MAX_CHARS)
          (zip [1 ..< Suc (length chunks)] chunks)
      in concat (case lines of [] \<Rightarrow> [] | l # ls \<Rightarrow> l # map (\<lambda>x. [newline, newline] @ x) ls))"

definition is_company_query :: "string \<Rightarrow> bool" where
  "is_company_query query = (let q = lower query in list_ex (\<lambda>k. py_in k q) company_keywords)"

definition contains_numeric_request :: "string \<Rightarrow> bool" where
  "contains_numeric_request query =
     (let q = lower query in list_ex (\<lambda>k. py_in k q) numeric_keywords)"

subsection \<open>Prioritisation\<close>

definition get_or_empty :: "string option \<Rightarrow> string" where
  "get_or_empty v = (case v of None \<Rightarrow> [] | Some s \<Rightarrow> s)"

definition is_overview :: "chunk \<Rightarrow> bool" where
  "is_overview ch =
     (py_in ''overview'' (lower (get_or_empty (doc_id (ch_meta ch))))
      \<or> py_in ''overview'' (lower (get_or_empty (mtype (ch_meta ch)))))"

text \<open>
  \<open>others\<close> is computed as in the source, by membership of the chunk in the list of
  overviews (\<open>ch not in overviews\<close>, which compares dicts by value). \<open>sorted\<close> is a
  stable sort, as \<open>sort_key\<close> is.
\<close>

definition prioritize_chunks :: "chunk list \<Rightarrow> string \<Rightarrow> chunk list" where
  "prioritize_chunks chunks query =
     (let overviews = filter is_overview chunks;
          others = filter (\<lambda>ch. ch \<notin> set overviews) chunks;
          overviews' = sort_key ch_score overviews;
          others' = sort_key ch_score others
      in overviews' @ others')"

subsection \<open>Prompt construction\<close>

definition build_prompt :: "string \<Rightarrow> chunk list \<Rightarrow> string" where
  "build_prompt query chunks =
     (case (if contains_numeric_request query then chunks else []) of
        best # _ \<Rightarrow>
          ''Extract the price from this data: '' @ ch_text best @ [newline]
          @ ''Question: '' @ query @ [newline] @ ''Answer:''
      | [] \<Rightarrow>
     (case (if is_company_query query then chunks else []) of
        best # _ \<Rightarrow>
          ''Summarize this company information: '' @ take 400 (ch_text best) @ [newline]
          @ ''Question: '' @ query @ [newline] @ ''Answer:''
      | [] \<Rightarrow>
          (let context_simple = concat (map (\<lambda>ch. take 200 (ch_text ch) @ [newline]) (take 2 chunks))
           in ''Context: '' @ context_simple @ [newline, newline]
              @ ''Question: '' @ query @ [newline] @ ''Answer:'')))"

text \<open>
  The prompt of the specification, for comparison: the same three templates, each chunk
  text first cut by \<open>shorten_text\<close> to \<open>CHUNK_MAX_CHARS\<close> characters and only then by
  the template's own slice.
\<close>

definition build_prompt_capped :: "string \<Rightarrow> chunk list \<Rightarrow> string" where
  "build_prompt_capped query chunks =
     build_prompt query
       (map (\<lambda>ch. ch\<lparr>ch_text := shorten_text (ch_text ch) CHUNK_MAX_CHARS\<rparr>) chunks)"

subsection \<open>Fallback extraction\<close>

text \<open>
  \<open>re.search(r'close\s+([0-9,]+\.?[0-9]*)', text, re.IGNORECASE)\<close>. \<open>close_at\<close> is the match
  anchored at the head of its argument and returns group 1. After the literal, the greedy
  \<open>\s+\<close> has to take the whole run of white space (a shorter run is followed by white
  space, which \<open>[0-9,]\<close> rejects), and the three greedy pieces of the group take their
  longest runs, since nothing follows them. The search returns the leftmost match.
\<close>

definition close_at :: "string \<Rightarrow> string option" where
  "close_at s =
     (if lower (take 5 s) = ''close'' then
        (let r = drop 5 s;
             r2 = dropWhile is_space r;
             ds = takeWhile is_digit_or_comma r2;
             r3 = dropWhile is_digit_or_comma r2;
             dot = (case r3 of [] \<Rightarrow> [] | c # _ \<Rightarrow> if c = CHR ''.'' then [c] else []);
             frac = takeWhile is_digit (drop (length dot) r3)
         in if takeWhile is_space r \<noteq> [] \<and> ds \<noteq> [] then Some (ds @ dot @ frac) else None)
      else None)"

fun close_search :: "string \<Rightarrow> string option" where
  "close_search [] = None"
| "close_search (c # cs) =
     (case close_at (c # cs) of Some g \<Rightarrow> Some g | None \<Rightarrow> close_search cs)"

text \<open>
  \<open>_NUMERIC_RE = [-+]?\d{1,3}(?:[,\d]{0,})?(?:\.\d+)?\<close>: an optional sign, a digit, the
  longest run of digits and commas, and a fraction when a dot is followed by a digit.
  \<open>findall(text)[0]\<close> is the leftmost match.
\<close>

definition numeric_at :: "string \<Rightarrow> string option" where
  "numeric_at s =
     (let sign = (case s of [] \<Rightarrow> []
                  | c # _ \<Rightarrow> if c = CHR ''-'' \<or> c = CHR ''+'' then [c] else []);
          r = drop (length sign) s;
          ds = takeWhile is_digit_or_comma r;
          r2 = dropWhile is_digit_or_comma r;
          frac = (case r2 of [] \<Rightarrow> []
                  | c # t \<Rightarrow> if c = CHR ''.'' \<and> takeWhile is_digit t \<noteq> []
                             then c # takeWhile is_digit t else [])
      in if takeWhile is_digit r \<noteq> [] then Some (sign @ ds @ frac) else None)"

fun numeric_search :: "string \<Rightarrow> string option" where
  "numeric_search [] = None"
| "numeric_search (c # cs) =
     (case numeric_at (c # cs) of Some m \<Rightarrow> Some m | None \<Rightarrow> numeric_search cs)"

definition extract_numeric_from_text :: "string \<Rightarrow> string" where
  "extract_numeric_from_text text =
     (case numeric_search text of None \<Rightarrow> [] | Some m \<Rightarrow> replace_char (CHR '','') [] m)"

text \<open>
  \<open>re.search(r'(.+?[\.!?])\s', text)\<close> on a text without newlines: the lazy \<open>.+?\<close> takes at
  least one character, so the match from position 0 ends at the first sentence mark that
  is not the first character and is followed by white space; a match from a later
  position gives one from position 0. \<open>acc\<close> is what \<open>.+?\<close> has consumed.
\<close>

fun sentence_scan :: "string \<Rightarrow> string \<Rightarrow> string option" where
  "sentence_scan acc (p # w # rest) =
     (if acc \<noteq> [] \<and> p \<in> set ''.!?'' \<and> is_space w then Some (acc @ [p])
      else sentence_scan (acc @ [p]) (w # rest))"
| "sentence_scan acc [p] = None"
| "sentence_scan acc [] = None"

definition first_sentence :: "string \<Rightarrow> string" where
  "first_sentence text0 =
     (let text = replace_char newline '' '' (strip text0)
      in case sentence_scan [] text of
           Some g \<Rightarrow> g
         | None \<Rightarrow> rsplit1_head (take 200 text) @ (if length text > 200 then ''...'' else []))"

subsection \<open>The answer operation\<close>

text \<open>
  \<open>retrieve\<close> (the vector store's query) and \<open>gen\<close> (the generation model) are external:
  they are parameters. \<open>numeric_fallback\<close> is lines 117 to 129, \<open>None\<close> when neither
  \<open>return\<close> is reached.
\<close>

definition numeric_fallback :: "string \<Rightarrow> string option" where
  "numeric_fallback text =
     (case (if py_in ''close'' (lower text) then close_search text else None) of
        Some g \<Rightarrow> Some (''BTC close price: '' @ g)
      | None \<Rightarrow>
          (let num = extract_numeric_from_text text
           in if num \<noteq> [] then Some (''Price: '' @ num) else None))"

definition poor_output :: "string \<Rightarrow> bool" where
  "poor_output answer_text = (answer_text = [] \<or> length answer_text \<le> 3 \<or> isdigit answer_text)"

definition answer ::
  "(string \<Rightarrow> int \<Rightarrow> chunk list) \<Rightarrow> (string \<Rightarrow> int \<Rightarrow> string) \<Rightarrow> string \<Rightarrow> int \<Rightarrow> int
     \<Rightarrow> string \<times> chunk list" where
  "answer retrieve gen query k max_new_tokens =
     (let candidates = retrieve query k;
          prioritized = prioritize_chunks candidates query;
          chunks_for_prompt = take 4 prioritized;
          prompt = build_prompt query chunks_for_prompt;
          out = gen prompt max_new_tokens;
          answer_text = strip out
      in if poor_output answer_text then
           (case (if contains_numeric_request query then chunks_for_prompt else []) of
              best # _ \<Rightarrow>
                (case numeric_fallback (ch_text best) of
                   Some a \<Rightarrow> (a, chunks_for_prompt)
                 | None \<Rightarrow> (first_sentence (ch_text best), chunks_for_prompt))
            | [] \<Rightarrow>
                (case chunks_for_prompt of
                   best # _ \<Rightarrow> (first_sentence (ch_text best), chunks_for_prompt)
                 | [] \<Rightarrow> (''I don't know.'', chunks_for_prompt)))
         else (answer_text, chunks_for_prompt))"


section \<open>app/ingest_api.py\<close>

subsection \<open>JSON values\<close>

text \<open>
  A response of the market-data API is a JSON object. Its values are scalars, flat
  objects of scalars (such as the meta data), time series (an object that maps a date to
  a row, a row being a flat object of scalars) or anything else (arrays). A Python dict
  is an association list in insertion order with distinct keys. JSON \<open>null\<close> is \<open>None\<close>;
  floating-point numbers are not modelled.
\<close>

datatype pyval = PNone | PBool bool | PInt int | PStr string

type_synonym row = "(string \<times> pyval) list"

datatype jval = Scalar pyval | Flat row | Series "(string \<times> row) list" | Other

type_synonym payload = "(string \<times> jval) list"

datatype error =
    HTTPError
  | UpstreamError jval
  | RetriesExceeded
  | AttributeError
  | KeyError
  | DuplicateIDError

text \<open>\<open>d.get(k)\<close>, truthiness, \<open>a or b\<close> and \<open>str(v)\<close> as an f-string renders it\<close>

definition dict_get :: "row \<Rightarrow> string \<Rightarrow> pyval" where
  "dict_get d k = (case map_of d k of None \<Rightarrow> PNone | Some v \<Rightarrow> v)"

fun truthy :: "pyval \<Rightarrow> bool" where
  "truthy PNone = False"
| "truthy (PBool b) = b"
| "truthy (PInt i) = (i \<noteq> 0)"
| "truthy (PStr s) = (s \<noteq> [])"

definition py_or :: "pyval \<Rightarrow> pyval \<Rightarrow> pyval" where
  "py_or a b = (if truthy a then a else b)"

fun py_str :: "pyval \<Rightarrow> string" where
  "py_str PNone = ''None''"
| "py_str (PBool b) = (if b then ''True'' else ''False'')"
| "py_str (PInt i) = str_int i"
| "py_str (PStr s) = s"

subsection \<open>\<open>AVClient._get\<close>\<close>

text \<open>
  The HTTP session is external: \<open>server n\<close> is what the \<open>n\<close>-th request of the session
  gets, a transport failure (\<open>raise_for_status\<close> raises) or a JSON object. The state
  counts the requests sent and records every \<open>time.sleep\<close>; \<open>sleep\<close> is the configured
  \<open>AV_RATE_LIMIT_SLEEP\<close>. The loop is \<open>for _ in range(5)\<close>.
\<close>

datatype response = Failed | Json payload

record net =
  attempts :: nat
  slept :: "nat list"

definition throttled :: "payload \<Rightarrow> bool" where
  "throttled data = list_ex (\<lambda>k. lower k = ''note'') (map fst data)"

fun get_loop :: "(nat \<Rightarrow> response) \<Rightarrow> nat \<Rightarrow> nat \<Rightarrow> net \<Rightarrow> (error + payload) \<times> net" where
  "get_loop server sleep 0 st = (Inl RetriesExceeded, st)"
| "get_loop server sleep (Suc n) st =
     (let st1 = st\<lparr>attempts := Suc (attempts st)\<rparr>
      in case server (attempts st) of
           Failed \<Rightarrow> (Inl HTTPError, st1)
         | Json data \<Rightarrow>
             if throttled data then get_loop server sleep n (st1\<lparr>slept := slept st1 @ [sleep]\<rparr>)
             else (case map_of data ''Error Message'' of
                     Some msg \<Rightarrow> (Inl (UpstreamError msg), st1)
                   | None \<Rightarrow> (Inr data, st1)))"

definition AVClient_get :: "(nat \<Rightarrow> response) \<Rightarrow> nat \<Rightarrow> net \<Rightarrow> (error + payload) \<times> net" where
  "AVClient_get server sleep st = get_loop server sleep 5 st"

subsection \<open>Daily-bar passages\<close>

text \<open>
  \<open>sorted(series.items(), key=lambda x: x[0], reverse=True)\<close>: Python compares strings
  by code point, lexicographically, and a reversed sort keeps equal keys in their
  original order.
\<close>

definition sorted_items_desc :: "(string \<times> 'a) list \<Rightarrow> (string \<times> 'a) list" where
  "sorted_items_desc series = rev (sort_key fst (rev series))"

definition stock_close :: "row \<Rightarrow> pyval" where
  "stock_close row = py_or (dict_get row ''4. close'') (dict_get row ''5. adjusted close'')"

definition stock_volume :: "row \<Rightarrow> pyval" where
  "stock_volume row =
     py_or (py_or (dict_get row ''6. volume'') (dict_get row ''5. volume'')) (dict_get row ''volume'')"

definition stock_bar :: "string \<Rightarrow> string \<Rightarrow> row \<Rightarrow> string" where
  "stock_bar symbol date_str row =
     (let op = dict_get row ''1. open''; h = dict_get row ''2. high''; l = dict_get row ''3. low'';
          c = stock_close row;
          v = stock_volume row
      in symbol @ '' daily bar on '' @ date_str @ '': open '' @ py_str op @ '', high '' @ py_str h
         @ '', low '' @ py_str l @ '', close '' @ py_str c @ '', volume '' @ py_str v @ ''.'')"

text \<open>
  The rows of the selected field: \<open>series.items()\<close> raises on a value that is no object,
  and \<open>row.get\<close> raises on the first row that is no object.
\<close>

definition series_rows :: "jval \<Rightarrow> int \<Rightarrow> error + (string \<times> row) list" where
  "series_rows v max_days =
     (case v of
        Series series \<Rightarrow> Inr (py_take max_days (sorted_items_desc series))
      | Flat r \<Rightarrow> if py_take max_days (sorted_items_desc r) = [] then Inr [] else Inl AttributeError
      | Scalar _ \<Rightarrow> Inl AttributeError
      | Other \<Rightarrow> Inl AttributeError)"

definition ts_stock_passages :: "string \<Rightarrow> payload \<Rightarrow> int \<Rightarrow> error + string list" where
  "ts_stock_passages symbol ts_json max_days =
     (case find (\<lambda>k. py_in ''Time Series'' k) (map fst ts_json) of
        None \<Rightarrow> Inr []
      | Some key \<Rightarrow>
          if key = [] then Inr []
          else (case map_of ts_json key of
                  None \<Rightarrow> Inl KeyError
                | Some v \<Rightarrow>
                    (case series_rows v max_days of
                       Inl e \<Rightarrow> Inl e
                     | Inr items \<Rightarrow> Inr (map (\<lambda>(date_str, row). stock_bar symbol date_str row) items))))"

text \<open>
  The crypto rows. \<open>_pick_crypto_price\<close> of the same file is called nowhere; the
  extraction that runs is the one written in the loop of \<open>_ts_crypto_passages\<close>.
\<close>

definition market_key :: "string \<Rightarrow> string \<Rightarrow> string" where
  "market_key stem market = stem @ '' ('' @ market @ '')''"

definition crypto_price :: "row \<Rightarrow> string \<Rightarrow> string \<Rightarrow> string \<Rightarrow> string \<Rightarrow> pyval" where
  "crypto_price row market plain stem_a stem_b =
     (let x = dict_get row plain
      in if x = PNone
         then py_or (dict_get row (market_key stem_a market)) (dict_get row (market_key stem_b market))
         else x)"

definition crypto_open :: "row \<Rightarrow> string \<Rightarrow> pyval" where
  "crypto_open row market = crypto_price row market ''1. open'' ''1a. open'' ''1b. open''"

definition crypto_high :: "row \<Rightarrow> string \<Rightarrow> pyval" where
  "crypto_high row market = crypto_price row market ''2. high'' ''2a. high'' ''2b. high''"

definition crypto_low :: "row \<Rightarrow> string \<Rightarrow> pyval" where
  "crypto_low row market = crypto_price row market ''3. low'' ''3a. low'' ''3b. low''"

definition crypto_close :: "row \<Rightarrow> string \<Rightarrow> pyval" where
  "crypto_close row market =
     (let c = crypto_price row market ''4. close'' ''4a. close'' ''4b. close''
      in if c = PNone
         then (case find (\<lambda>(k, val). py_in ''close'' (lower k)) row of
                 None \<Rightarrow> PNone
               | Some (k, val) \<Rightarrow> val)
         else c)"

definition crypto_volume :: "row \<Rightarrow> pyval" where
  "crypto_volume row = py_or (dict_get row ''5. volume'') (dict_get row ''6. market cap (usd)'')"

definition crypto_bar :: "string \<Rightarrow> string \<Rightarrow> string \<Rightarrow> row \<Rightarrow> string" where
  "crypto_bar symbol market date_str row =
     symbol @ ''/'' @ market @ '' on '' @ date_str
     @ '': open '' @ py_str (crypto_open row market)
     @ '', high '' @ py_str (crypto_high row market)
     @ '', low '' @ py_str (crypto_low row market)
     @ '', close '' @ py_str (crypto_close row market)
     @ '', volume '' @ py_str (crypto_volume row) @ ''.''"

definition ts_crypto_passages :: "string \<Rightarrow> string \<Rightarrow> payload \<Rightarrow> int \<Rightarrow> error + string list" where
  "ts_crypto_passages symbol market json_obj max_days =
     (case find (\<lambda>k. py_in ''time series'' (lower k)) (map fst json_obj) of
        None \<Rightarrow> Inr []
      | Some ts_key \<Rightarrow>
          if ts_key = [] then Inr []
          else (case map_of json_obj ts_key of
                  None \<Rightarrow> Inl KeyError
                | Some v \<Rightarrow>
                    (case series_rows v max_days of
                       Inl e \<Rightarrow> Inl e
                     | Inr items \<Rightarrow>
                         Inr (map (\<lambda>(date_str, row). crypto_bar symbol market date_str row) items))))"


section \<open>app/index.py\<close>

text \<open>
  A passage is the dict \<open>{id, text, source, type}\<close> of the docstring; \<open>source\<close> and \<open>type\<close>
  are read with \<open>.get\<close> and a default. The vector store is external: a collection is
  the list of the tuples inserted into it, and the store maps a collection name to its
  collection. The embedding model is the parameter \<open>encode\<close>, which gives the vector of one
  text of the batch. \<open>col.delete(where={})\<close> is the parameter \<open>delete_where\<close>, which returns the
  collection it leaves or \<open>None\<close> when the call raises (the source catches that and goes
  on). The store behind \<open>PersistentClient\<close> rejects an empty filter, so in the running
  system the call raises. \<open>col.add\<close> is \<open>col_add\<close>: the store refuses a batch that repeats
  an id, and skips the records whose id the collection already holds. Every call to the
  store or the model is recorded in a trace.
\<close>

record doc =
  d_id :: string
  d_text :: string
  d_source :: "string option"
  d_type :: "string option"

record 'v entry =
  e_id :: string
  e_embedding :: 'v
  e_document :: string
  e_metadata :: meta

datatype event =
    GetCollection string
  | CreateCollection string
  | LoadEmbedder
  | Encode "string list"
  | Delete string
  | Add string "string list"

record 'v world =
  collections :: "string \<rightharpoonup> 'v entry list"
  trace :: "event list"

definition get_collection :: "string \<Rightarrow> 'v world \<Rightarrow> 'v world" where
  "get_collection name w =
     (case collections w name of
        Some col \<Rightarrow> w\<lparr>trace := trace w @ [GetCollection name]\<rparr>
      | None \<Rightarrow> w\<lparr>collections := (collections w)(name \<mapsto> []),
                  trace := trace w @ [GetCollection name, CreateCollection name]\<rparr>)"

definition contents :: "'v world \<Rightarrow> string \<Rightarrow> 'v entry list" where
  "contents w name = (case collections w name of None \<Rightarrow> [] | Some col \<Rightarrow> col)"

text \<open>The ids, texts and metadata that the loop over the passages accumulates, in step.\<close>

definition chunk_rows :: "doc list \<Rightarrow> (string \<Rightarrow> string list) \<Rightarrow> (string \<times> string \<times> meta) list" where
  "chunk_rows docs chunker =
     concat (map (\<lambda>d.
        map (\<lambda>(i, ch).
               (d_id d @ ''#chunk'' @ str_nat i,
                ch,
                \<lparr>source = Some (case d_source d of None \<Rightarrow> ''alpha_vantage'' | Some s \<Rightarrow> s),
                 chunk_ix = Some i,
                 doc_id = Some (d_id d),
                 mtype = Some (case d_type d of None \<Rightarrow> ''api/alpha_vantage'' | Some t \<Rightarrow> t)\<rparr>))
            (enumerate 0 (chunker (d_text d))))
        docs)"

definition new_entries :: "(string \<Rightarrow> 'v) \<Rightarrow> doc list \<Rightarrow> (string \<Rightarrow> string list) \<Rightarrow> 'v entry list" where
  "new_entries encode docs chunker =
     map (\<lambda>(i, t, m). \<lparr>e_id = i, e_embedding = encode t, e_document = t, e_metadata = m\<rparr>)
         (chunk_rows docs chunker)"

definition col_add :: "'v entry list \<Rightarrow> 'v entry list \<Rightarrow> error + 'v entry list" where
  "col_add col batch =
     (if distinct (map e_id batch)
      then Inr (col @ filter (\<lambda>e. \<not> list_ex (\<lambda>x. e_id x = e_id e) col) batch)
      else Inl DuplicateIDError)"

definition build_index ::
  "(string \<Rightarrow> 'v) \<Rightarrow> ('v entry list \<Rightarrow> 'v entry list option) \<Rightarrow> doc list \<Rightarrow> (string \<Rightarrow> string list)
     \<Rightarrow> string \<Rightarrow> 'v world \<Rightarrow> (error + nat) \<times> 'v world" where
  "build_index encode delete_where docs chunker collection_name w =
     (let w1 = get_collection collection_name w;
          w2 = w1\<lparr>trace := trace w1 @ [LoadEmbedder]\<rparr>;
          rows = chunk_rows docs chunker;
          ids = map fst rows;
          texts = map (fst \<circ> snd) rows
      in if texts = [] then (Inr 0, w2)
         else
           (let w3 = w2\<lparr>trace := trace w2 @ [Encode texts]\<rparr>;
                col = contents w3 collection_name;
                cleared = (case delete_where col of None \<Rightarrow> col | Some col' \<Rightarrow> col');
                w4 = w3\<lparr>collections := (collections w3)(collection_name \<mapsto> cleared),
                        trace := trace w3 @ [Delete collection_name, Add collection_name ids]\<rparr>
            in case col_add cleared (new_entries encode docs chunker) of
                 Inl e \<Rightarrow> (Inl e, w4)
               | Inr added \<Rightarrow>
                   (Inr (length ids),
                    w4\<lparr>collections := (collections w4)(collection_name \<mapsto> added)\<rparr>)))"

section \<open>Properties of the answer composer\<close>

subsection \<open>Prioritisation\<close>

lemma lower_char_table:
  "lower_char c =
     (case map_of
           [(CHR ''A'', CHR ''a''), (CHR ''B'', CHR ''b''), (CHR ''C'', CHR ''c''), (CHR ''D'', CHR ''d''),
            (CHR ''E'', CHR ''e''), (CHR ''F'', CHR ''f''), (CHR ''G'', CHR ''g''), (CHR ''H'', CHR ''h''),
            (CHR ''I'', CHR ''i''), (CHR ''J'', CHR ''j''), (CHR ''K'', CHR ''k''), (CHR ''L'', CHR ''l''),
            (CHR ''M'', CHR ''m''), (CHR ''N'', CHR ''n''), (CHR ''O'', CHR ''o''), (CHR ''P'', CHR ''p''),
            (CHR ''Q'', CHR ''q''), (CHR ''R'', CHR ''r''), (CHR ''S'', CHR ''s''), (CHR ''T'', CHR ''t''),
            (CHR ''U'', CHR ''u''), (CHR ''V'', CHR ''v''), (CHR ''W'', CHR ''w''), (CHR ''X'', CHR ''x''),
            (CHR ''Y'', CHR ''y''), (CHR ''Z'', CHR ''z''), (CHR 0xC0, CHR 0xE0), (CHR 0xC1, CHR 0xE1),
            (CHR 0xC2, CHR 0xE2), (CHR 0xC3, CHR 0xE3), (CHR 0xC4, CHR 0xE4), (CHR 0xC5, CHR 0xE5),
            (CHR 0xC6, CHR 0xE6), (CHR 0xC7, CHR 0xE7), (CHR 0xC8, CHR 0xE8), (CHR 0xC9, CHR 0xE9),
            (CHR 0xCA, CHR 0xEA), (CHR 0xCB, CHR 0xEB), (CHR 0xCC, CHR 0xEC), (CHR 0xCD, CHR 0xED),
            (CHR 0xCE, CHR 0xEE), (CHR 0xCF, CHR 0xEF), (CHR 0xD0, CHR 0xF0), (CHR 0xD1, CHR 0xF1),
            (CHR 0xD2, CHR 0xF2), (CHR 0xD3, CHR 0xF3), (CHR 0xD4, CHR 0xF4), (CHR 0xD5, CHR 0xF5),
            (CHR 0xD6, CHR 0xF6), (CHR 0xD8, CHR 0xF8), (CHR 0xD9, CHR 0xF9), (CHR 0xDA, CHR 0xFA),
            (CHR 0xDB, CHR 0xFB), (CHR 0xDC, CHR 0xFC), (CHR 0xDD, CHR 0xFD), (CHR 0xDE, CHR 0xFE)] c of
        None \<Rightarrow> c
      | Some d \<Rightarrow> d)"
  by (simp add: lower_char_def)


lemma others_are_non_overviews:
  "filter (\<lambda>ch. ch \<notin> set (filter is_overview chunks)) chunks
     = filter (\<lambda>ch. \<not> is_overview ch) chunks"
  by (rule filter_cong) auto

lemma prioritize_chunks_eq:
  "prioritize_chunks chunks query
     = sort_key ch_score (filter is_overview chunks)
       @ sort_key ch_score (filter (\<lambda>ch. \<not> is_overview ch) chunks)"
  by (simp only: prioritize_chunks_def Let_def others_are_non_overviews)

lemma prioritize_chunks_Nil: "prioritize_chunks [] query = []"
  by (simp add: prioritize_chunks_def)

lemma prioritize_overview_example:
  "prioritize_chunks
      [\<lparr>ch_text = ''BTC/USD on 2024-01-02: close 42350.10'',
        ch_meta = \<lparr>source = Some ''alpha_vantage:digital_currency_daily'', chunk_ix = Some 0,
                   doc_id = Some ''av/BTC-USD/digital_daily#0'', mtype = Some ''api/alpha_vantage''\<rparr>,
        ch_score = 0.1\<rparr>,
       \<lparr>ch_text = ''AAPL Company Overview:'',
        ch_meta = \<lparr>source = Some ''alpha_vantage:overview'', chunk_ix = Some 0,
                   doc_id = Some ''av/AAPL/overview'', mtype = Some ''api/alpha_vantage''\<rparr>,
        ch_score = 0.9\<rparr>] query
    = [\<lparr>ch_text = ''AAPL Company Overview:'',
        ch_meta = \<lparr>source = Some ''alpha_vantage:overview'', chunk_ix = Some 0,
                   doc_id = Some ''av/AAPL/overview'', mtype = Some ''api/alpha_vantage''\<rparr>,
        ch_score = 0.9\<rparr>,
       \<lparr>ch_text = ''BTC/USD on 2024-01-02: close 42350.10'',
        ch_meta = \<lparr>source = Some ''alpha_vantage:digital_currency_daily'', chunk_ix = Some 0,
                   doc_id = Some ''av/BTC-USD/digital_daily#0'', mtype = Some ''api/alpha_vantage''\<rparr>,
        ch_score = 0.1\<rparr>]"
  by (simp add: prioritize_chunks_def is_overview_def get_or_empty_def lower_def lower_char_table)

text \<open>
  Claim C9. For every retrieval result the prioritised order is the overview-flavoured
  chunks (those whose \<open>doc_id\<close> or \<open>type\<close> contains \<open>overview\<close> in any letter case) sorted
  by ascending score, followed by all the other chunks sorted by ascending score; the
  result has the chunks of the input, as many as the input. In particular an overview
  chunk of score 0.9 comes before another chunk of score 0.1.
\<close>

theorem prioritize_chunks_order:
  "prioritize_chunks chunks query
     = sort_key ch_score (filter is_overview chunks)
       @ sort_key ch_score (filter (\<lambda>ch. \<not> is_overview ch) chunks)
   \<and> sorted (map ch_score (sort_key ch_score (filter is_overview chunks)))
   \<and> sorted (map ch_score (sort_key ch_score (filter (\<lambda>ch. \<not> is_overview ch) chunks)))
   \<and> set (prioritize_chunks chunks query) = set chunks
   \<and> length (prioritize_chunks chunks query) = length chunks
   \<and> prioritize_chunks
      [\<lparr>ch_text = ''BTC/USD on 2024-01-02: close 42350.10'',
        ch_meta = \<lparr>source = Some ''alpha_vantage:digital_currency_daily'', chunk_ix = Some 0,
                   doc_id = Some ''av/BTC-USD/digital_daily#0'', mtype = Some ''api/alpha_vantage''\<rparr>,
        ch_score = 0.1\<rparr>,
       \<lparr>ch_text = ''AAPL Company Overview:'',
        ch_meta = \<lparr>source = Some ''alpha_vantage:overview'', chunk_ix = Some 0,
                   doc_id = Some ''av/AAPL/overview'', mtype = Some ''api/alpha_vantage''\<rparr>,
        ch_score = 0.9\<rparr>] query
    = [\<lparr>ch_text = ''AAPL Company Overview:'',
        ch_meta = \<lparr>source = Some ''alpha_vantage:overview'', chunk_ix = Some 0,
                   doc_id = Some ''av/AAPL/overview'', mtype = Some ''api/alpha_vantage''\<rparr>,
        ch_score = 0.9\<rparr>,
       \<lparr>ch_text = ''BTC/USD on 2024-01-02: close 42350.10'',
        ch_meta = \<lparr>source = Some ''alpha_vantage:digital_currency_daily'', chunk_ix = Some 0,
                   doc_id = Some ''av/BTC-USD/digital_daily#0'', mtype = Some ''api/alpha_vantage''\<rparr>,
        ch_score = 0.1\<rparr>]"
proof -
  have len: "length (prioritize_chunks chunks query) = length chunks"
    unfolding prioritize_chunks_eq by (simp add: sum_length_filter_compl)
  have st: "set (prioritize_chunks chunks query) = set chunks"
    unfolding prioritize_chunks_eq by auto
  show ?thesis
    using prioritize_chunks_eq [of chunks query] len st prioritize_overview_example [of query]
    by simp
qed


subsection \<open>Fallback answers\<close>

lemma close_query_is_numeric: "contains_numeric_request ''What was the close price?''"
  by (simp add: contains_numeric_request_def numeric_keywords_def lower_def lower_char_table)

lemma close_in_bar_text:
  "py_in ''close''
     (lower ''BTC/USD on 2024-01-02: open 1, high 2, low 3, close 42,350.10 volume 5.'')"
  by (simp add: lower_def lower_char_table)

lemma close_search_bar_text:
  "close_search ''BTC/USD on 2024-01-02: open 1, high 2, low 3, close 42,350.10 volume 5.''
     = Some ''42,350.10''"
  by (simp add: close_at_def lower_def lower_char_table is_space_def is_digit_or_comma_def
      is_digit_def)

lemma numeric_fallback_bar_text:
  "numeric_fallback ''BTC/USD on 2024-01-02: open 1, high 2, low 3, close 42,350.10 volume 5.''
     = Some ''BTC close price: 42,350.10''"
  by (simp only: numeric_fallback_def close_in_bar_text close_search_bar_text if_True
      option.case append.simps)

lemma poor_output_empty: "poor_output (strip [])"
  by (simp add: poor_output_def strip_def)

text \<open>
  Claim C1. The claim promises the number with its commas stripped. On the best chunk
  text \<open>... close 42,350.10 volume 5.\<close>, a numeric query and an empty generation, the
  answer operation returns \<open>BTC close price: 42,350.10\<close> with the chunk as its citation:
  the number keeps its commas and \<open>42350.10\<close> does not occur in the answer.
\<close>

theorem answer_close_fallback_keeps_commas:
  "answer
     (\<lambda>q k. [\<lparr>ch_text = ''BTC/USD on 2024-01-02: open 1, high 2, low 3, close 42,350.10 volume 5.'',
                ch_meta = \<lparr>source = Some ''alpha_vantage:digital_currency_daily'',
                           chunk_ix = Some 0, doc_id = Some ''av/BTC-USD/digital_daily#0'',
                           mtype = Some ''api/alpha_vantage''\<rparr>,
                ch_score = 0.3\<rparr>])
     (\<lambda>prompt n. [])
     ''What was the close price?'' 6 100
   = (''BTC close price: 42,350.10'',
      [\<lparr>ch_text = ''BTC/USD on 2024-01-02: open 1, high 2, low 3, close 42,350.10 volume 5.'',
        ch_meta = \<lparr>source = Some ''alpha_vantage:digital_currency_daily'',
                   chunk_ix = Some 0, doc_id = Some ''av/BTC-USD/digital_daily#0'',
                   mtype = Some ''api/alpha_vantage''\<rparr>,
        ch_score = 0.3\<rparr>])
   \<and> \<not> py_in ''42350.10'' ''BTC close price: 42,350.10''"
proof -
  have "\<not> py_in ''42350.10'' ''BTC close price: 42,350.10''"
    by simp
  then show ?thesis
    by (simp add: answer_def prioritize_chunks_eq is_overview_def get_or_empty_def lower_def
        lower_char_table close_query_is_numeric numeric_fallback_bar_text poor_output_empty)
qed

text \<open>
  Claim C7, as amended. When retrieval returns no chunk, the citation list is empty and
  the answer is the literal \<open>I don't know.\<close> if the generator output, stripped of leading
  and trailing white space as \<open>str.strip\<close> does, is empty, at most three characters long
  or made of digits only as \<open>str.isdigit\<close> tells; any other generator output is returned,
  stripped, as the answer. No error is raised either way.
\<close>

theorem answer_no_context:
  "retrieve query k = [] \<Longrightarrow>
     answer retrieve gen query k max_new_tokens
       = (let answer_text = strip (gen (build_prompt query []) max_new_tokens)
          in if poor_output answer_text then (''I don't know.'', []) else (answer_text, []))"
  by (simp add: answer_def prioritize_chunks_Nil Let_def)

theorem answer_no_context_witness:
  "(\<lambda>q k. []) ''What is the capital?'' (6::int) = ([]::chunk list)
   \<and> answer (\<lambda>q k. []) (\<lambda>p n. [CHR 0xA0, CHR 0x20, CHR 0x85, CHR 0xA0])
        ''What is the capital?'' 6 100 = (''I don't know.'', [])
   \<and> answer (\<lambda>q k. []) (\<lambda>p n. [CHR 0xB2, CHR 0x30, CHR 0xB3, CHR 0xB9])
        ''What is the capital?'' 6 100 = (''I don't know.'', [])"
  using
    answer_no_context [of "\<lambda>q k. []" "''What is the capital?''" 6
      "\<lambda>p n. [CHR 0xA0, CHR 0x20, CHR 0x85, CHR 0xA0]" 100]
    answer_no_context [of "\<lambda>q k. []" "''What is the capital?''" 6
      "\<lambda>p n. [CHR 0xB2, CHR 0x30, CHR 0xB3, CHR 0xB9]" 100]
  by (simp add: strip_def poor_output_def is_space_def isdigit_def is_str_digit_def is_digit_def)

text \<open>
  The claim as stated fails: with no chunk retrieved and the generator output
  \<open>Paris is the capital.\<close>, the answer is that output.
\<close>

theorem answer_no_context_counterexample:
  "answer (\<lambda>q k. []) (\<lambda>p n. ''Paris is the capital.'') ''What is the capital?'' 6 100
     = (''Paris is the capital.'', [])
   \<and> fst (answer (\<lambda>q k. []) (\<lambda>p n. ''Paris is the capital.'') ''What is the capital?'' 6 100)
     \<noteq> ''I don't know.''"
  by (simp add: answer_def prioritize_chunks_Nil strip_def poor_output_def is_space_def
      isdigit_def is_str_digit_def is_digit_def)

subsection \<open>Prompt templates\<close>

lemma price_is_numeric: "contains_numeric_request ''price''"
  by (simp add: contains_numeric_request_def numeric_keywords_def lower_def lower_char_table)

lemma shorten_long_run:
  "shorten_text (replicate 900 (CHR ''a'')) CHUNK_MAX_CHARS = replicate 800 (CHR ''a'') @ '' ...''"
  by (simp add: shorten_text_def CHUNK_MAX_CHARS_def rsplit1_head_def)

lemma overview_query_class:
  "\<not> contains_numeric_request ''Summarize the company'' \<and> is_company_query ''Summarize the company''"
  by (simp add: contains_numeric_request_def numeric_keywords_def is_company_query_def
      company_keywords_def lower_def lower_char_table)

lemma general_query_class:
  "\<not> contains_numeric_request ''Who?'' \<and> \<not> is_company_query ''Who?''"
  by (simp add: contains_numeric_request_def numeric_keywords_def is_company_query_def
      company_keywords_def lower_def lower_char_table)

text \<open>
  Claim C2, as amended. No cap of 800 characters is applied to a chunk text that the
  prompt embeds: the numeric template embeds the whole text of the best chunk, whatever
  its length; the company template embeds its first 400 characters; the general template
  embeds the first 200 characters of each of the first two chunks. No ellipsis is added.
\<close>

theorem build_prompt_templates:
  "(contains_numeric_request query \<longrightarrow>
      build_prompt query (best # rest)
        = ''Extract the price from this data: '' @ ch_text best @ [newline]
          @ ''Question: '' @ query @ [newline] @ ''Answer:'')
   \<and> (\<not> contains_numeric_request query \<and> is_company_query query \<longrightarrow>
      build_prompt query (best # rest)
        = ''Summarize this company information: '' @ take 400 (ch_text best) @ [newline]
          @ ''Question: '' @ query @ [newline] @ ''Answer:'')
   \<and> (\<not> contains_numeric_request query \<and> \<not> is_company_query query \<longrightarrow>
      build_prompt query chunks
        = ''Context: '' @ concat (map (\<lambda>ch. take 200 (ch_text ch) @ [newline]) (take 2 chunks))
          @ [newline, newline] @ ''Question: '' @ query @ [newline] @ ''Answer:'')"
  by (simp add: build_prompt_def)

theorem build_prompt_templates_witness:
  "contains_numeric_request ''price''
   \<and> build_prompt ''price''
       [\<lparr>ch_text = replicate 900 (CHR ''a''),
         ch_meta = \<lparr>source = None, chunk_ix = None, doc_id = None, mtype = None\<rparr>, ch_score = 0\<rparr>]
     = ''Extract the price from this data: '' @ replicate 900 (CHR ''a'') @ [newline]
       @ ''Question: price'' @ [newline] @ ''Answer:''
   \<and> is_company_query ''Summarize the company''
   \<and> build_prompt ''Summarize the company''
       [\<lparr>ch_text = replicate 900 (CHR ''a''),
         ch_meta = \<lparr>source = None, chunk_ix = None, doc_id = None, mtype = None\<rparr>, ch_score = 0\<rparr>]
     = ''Summarize this company information: '' @ replicate 400 (CHR ''a'') @ [newline]
       @ ''Question: Summarize the company'' @ [newline] @ ''Answer:''
   \<and> build_prompt ''Who?''
       [\<lparr>ch_text = replicate 900 (CHR ''a''),
         ch_meta = \<lparr>source = None, chunk_ix = None, doc_id = None, mtype = None\<rparr>, ch_score = 0\<rparr>]
     = ''Context: '' @ replicate 200 (CHR ''a'') @ [newline] @ [newline, newline]
       @ ''Question: Who?'' @ [newline] @ ''Answer:''"
  using
    build_prompt_templates [of "''price''"
       "\<lparr>ch_text = replicate 900 (CHR ''a''),
         ch_meta = \<lparr>source = None, chunk_ix = None, doc_id = None, mtype = None\<rparr>, ch_score = 0\<rparr>"
       "[]" "[]"]
    build_prompt_templates [of "''Summarize the company''"
       "\<lparr>ch_text = replicate 900 (CHR ''a''),
         ch_meta = \<lparr>source = None, chunk_ix = None, doc_id = None, mtype = None\<rparr>, ch_score = 0\<rparr>"
       "[]" "[]"]
    build_prompt_templates [of "''Who?''"
       "\<lparr>ch_text = replicate 900 (CHR ''a''),
         ch_meta = \<lparr>source = None, chunk_ix = None, doc_id = None, mtype = None\<rparr>, ch_score = 0\<rparr>"
       "[]"
       "[\<lparr>ch_text = replicate 900 (CHR ''a''),
         ch_meta = \<lparr>source = None, chunk_ix = None, doc_id = None, mtype = None\<rparr>, ch_score = 0\<rparr>]"]
    price_is_numeric overview_query_class general_query_class
  by simp

text \<open>
  The claim as stated fails: for the query \<open>price\<close> and a chunk of 900 characters without
  a space, the prompt embeds all 900 characters, while the capped prompt of the
  specification would embed 800 of them and an ellipsis.
\<close>

theorem build_prompt_cap_counterexample:
  "build_prompt ''price''
     [\<lparr>ch_text = replicate 900 (CHR ''a''),
       ch_meta = \<lparr>source = None, chunk_ix = None, doc_id = None, mtype = None\<rparr>, ch_score = 0\<rparr>]
     = ''Extract the price from this data: '' @ replicate 900 (CHR ''a'') @ [newline]
       @ ''Question: price'' @ [newline] @ ''Answer:''
   \<and> build_prompt ''price''
     [\<lparr>ch_text = replicate 900 (CHR ''a''),
       ch_meta = \<lparr>source = None, chunk_ix = None, doc_id = None, mtype = None\<rparr>, ch_score = 0\<rparr>]
     \<noteq> build_prompt_capped ''price''
     [\<lparr>ch_text = replicate 900 (CHR ''a''),
       ch_meta = \<lparr>source = None, chunk_ix = None, doc_id = None, mtype = None\<rparr>, ch_score = 0\<rparr>]"
proof -
  have "replicate 900 (CHR ''a'') \<noteq> replicate 800 (CHR ''a'') @ '' ...''"
  proof
    assume "replicate 900 (CHR ''a'') = replicate 800 (CHR ''a'') @ '' ...''"
    then have "length (replicate 900 (CHR ''a'')) = length (replicate 800 (CHR ''a'') @ '' ...'')"
      by (rule arg_cong)
    then show False by simp
  qed
  then show ?thesis
    by (simp add: build_prompt_def build_prompt_capped_def price_is_numeric shorten_long_run)
qed


section \<open>Properties of the passage builder\<close>

subsection \<open>Throttled fetches\<close>

lemma get_loop_throttled:
  "server (attempts st) = Json t \<Longrightarrow> throttled t \<Longrightarrow>
     get_loop server sleep (Suc n) st
       = get_loop server sleep n (st\<lparr>attempts := Suc (attempts st), slept := slept st @ [sleep]\<rparr>)"
  by simp

lemma get_loop_all_throttled:
  "(\<And>i. i < n \<Longrightarrow> \<exists>t. server (attempts st + i) = Json t \<and> throttled t) \<Longrightarrow>
     get_loop server sleep n st
       = (Inl RetriesExceeded, st\<lparr>attempts := attempts st + n, slept := slept st @ replicate n sleep\<rparr>)"
proof (induction n arbitrary: st)
  case 0
  then show ?case by simp
next
  case (Suc n)
  from Suc.prems [of 0] obtain t where t: "server (attempts st) = Json t" "throttled t"
    by auto
  let ?st = "st\<lparr>attempts := Suc (attempts st), slept := slept st @ [sleep]\<rparr>"
  have "\<And>i. i < n \<Longrightarrow> \<exists>t. server (attempts ?st + i) = Json t \<and> throttled t"
    using Suc.prems [of "Suc i" for i] by simp
  then have "get_loop server sleep n ?st
      = (Inl RetriesExceeded, ?st\<lparr>attempts := attempts ?st + n, slept := slept ?st @ replicate n sleep\<rparr>)"
    by (rule Suc.IH)
  moreover have "get_loop server sleep (Suc n) st = get_loop server sleep n ?st"
    using t by simp
  ultimately show ?case
    by simp
qed

lemma throttled_note: "throttled [(''Note'', Scalar (PStr ''Thank you for using Alpha Vantage!''))]"
  by (simp add: throttled_def lower_def lower_char_table)

lemma not_throttled_series:
  "\<not> throttled [(''Meta Data'', Flat []), (''Time Series (Daily)'', Series [])]"
  by (simp add: throttled_def lower_def lower_char_table)

text \<open>
  Claim C8. A fetch whose first two responses carry the throttling signal (a key equal to
  \<open>note\<close> in any letter case) and whose third response is a valid payload returns that
  payload after three requests, having slept the fixed duration after each throttled
  response. A fetch that meets the throttling signal five times in a row sends exactly
  five requests and raises the retries-exceeded error.
\<close>

theorem get_throttle_retry:
  "(server (attempts st) = Json t1 \<and> throttled t1
      \<and> server (attempts st + 1) = Json t2 \<and> throttled t2
      \<and> server (attempts st + 2) = Json data \<and> \<not> throttled data
      \<and> map_of data ''Error Message'' = None
    \<longrightarrow> AVClient_get server sleep st
          = (Inr data, st\<lparr>attempts := attempts st + 3, slept := slept st @ [sleep, sleep]\<rparr>))
   \<and> ((\<forall>i<5. \<exists>t. server' (attempts st + i) = Json t \<and> throttled t)
    \<longrightarrow> AVClient_get server' sleep st
          = (Inl RetriesExceeded,
             st\<lparr>attempts := attempts st + 5, slept := slept st @ replicate 5 sleep\<rparr>))"
proof (intro conjI impI)
  assume a: "server (attempts st) = Json t1 \<and> throttled t1
      \<and> server (attempts st + 1) = Json t2 \<and> throttled t2
      \<and> server (attempts st + 2) = Json data \<and> \<not> throttled data
      \<and> map_of data ''Error Message'' = None"
  have five: "(5::nat) = Suc (Suc (Suc (Suc (Suc 0))))" by simp
  show "AVClient_get server sleep st
          = (Inr data, st\<lparr>attempts := attempts st + 3, slept := slept st @ [sleep, sleep]\<rparr>)"
    unfolding AVClient_get_def five using a by simp
next
  assume "\<forall>i<5. \<exists>t. server' (attempts st + i) = Json t \<and> throttled t"
  then show "AVClient_get server' sleep st
          = (Inl RetriesExceeded,
             st\<lparr>attempts := attempts st + 5, slept := slept st @ replicate 5 sleep\<rparr>)"
    unfolding AVClient_get_def by (intro get_loop_all_throttled) simp
qed

theorem get_throttle_retry_witness:
  "AVClient_get
      (\<lambda>n. if n < 2 then Json [(''Note'', Scalar (PStr ''Thank you for using Alpha Vantage!''))]
            else Json [(''Meta Data'', Flat []), (''Time Series (Daily)'', Series [])])
      13 \<lparr>attempts = 0, slept = []\<rparr>
     = (Inr [(''Meta Data'', Flat []), (''Time Series (Daily)'', Series [])],
        \<lparr>attempts = 3, slept = [13, 13]\<rparr>)
   \<and> AVClient_get (\<lambda>n. Json [(''Note'', Scalar (PStr ''Thank you for using Alpha Vantage!''))])
      13 \<lparr>attempts = 0, slept = []\<rparr>
     = (Inl RetriesExceeded, \<lparr>attempts = 5, slept = [13, 13, 13, 13, 13]\<rparr>)"
  using get_throttle_retry
     [of "\<lambda>n. if n < 2 then Json [(''Note'', Scalar (PStr ''Thank you for using Alpha Vantage!''))]
            else Json [(''Meta Data'', Flat []), (''Time Series (Daily)'', Series [])]"
         "\<lparr>attempts = 0, slept = []\<rparr>"
         "[(''Note'', Scalar (PStr ''Thank you for using Alpha Vantage!''))]"
         "[(''Note'', Scalar (PStr ''Thank you for using Alpha Vantage!''))]"
         "[(''Meta Data'', Flat []), (''Time Series (Daily)'', Series [])]"
         13
         "\<lambda>n. Json [(''Note'', Scalar (PStr ''Thank you for using Alpha Vantage!''))]"]
    throttled_note not_throttled_series
  by (simp add: eval_nat_numeral)

subsection \<open>Stock daily bars\<close>

lemma sorted_items_desc_single: "sorted_items_desc [x] = [x]"
  by (simp add: sorted_items_desc_def)

lemma series_rows_single: "series_rows (Series [x]) 365 = Inr [x]"
  by (simp add: series_rows_def py_take_def sorted_items_desc_single)

lemma ts_stock_single:
  "py_in ''Time Series'' key \<Longrightarrow>
     ts_stock_passages symbol [(key, Series [(date_str, row)])] 365
       = Inr [stock_bar symbol date_str row]"
  by (cases key) (simp_all add: ts_stock_passages_def series_rows_single)

lemma ts_crypto_single:
  "py_in ''time series'' (lower key) \<Longrightarrow>
     ts_crypto_passages symbol market [(key, Series [(date_str, row)])] 365
       = Inr [crypto_bar symbol market date_str row]"
  by (cases key) (simp_all add: ts_crypto_passages_def series_rows_single lower_def)

lemma daily_key: "py_in ''Time Series'' ''Time Series (Daily)''"
  by simp


text \<open>
  Claim C10. In a stock row the close falls back to \<open>5. adjusted close\<close> whenever the
  value of \<open>4. close\<close> is falsy, in particular when it is present as the empty string or
  as 0, and not only when the key is absent: the passage then renders the adjusted close.
  The volume falls back in the same way, from \<open>6. volume\<close> to \<open>5. volume\<close> and then to
  \<open>volume\<close>.
\<close>

theorem stock_falsy_fallback:
  "(map_of row ''4. close'' = Some (PStr []) \<or> map_of row ''4. close'' = Some (PInt 0)
      \<or> \<not> truthy (dict_get row ''4. close'')
    \<longrightarrow> stock_close row = dict_get row ''5. adjusted close''
        \<and> ts_stock_passages symbol [(''Time Series (Daily)'', Series [(date_str, row)])] 365
          = Inr [symbol @ '' daily bar on '' @ date_str
                 @ '': open '' @ py_str (dict_get row ''1. open'')
                 @ '', high '' @ py_str (dict_get row ''2. high'')
                 @ '', low '' @ py_str (dict_get row ''3. low'')
                 @ '', close '' @ py_str (dict_get row ''5. adjusted close'')
                 @ '', volume '' @ py_str (stock_volume row) @ ''.''])
   \<and> (map_of row ''6. volume'' = Some (PStr []) \<or> map_of row ''6. volume'' = Some (PInt 0)
      \<or> \<not> truthy (dict_get row ''6. volume'')
    \<longrightarrow> stock_volume row = py_or (dict_get row ''5. volume'') (dict_get row ''volume''))"
proof -
  have bar: "ts_stock_passages symbol [(''Time Series (Daily)'', Series [(date_str, row)])] 365
       = Inr [stock_bar symbol date_str row]"
    by (rule ts_stock_single) (rule daily_key)
  have c: "\<not> truthy (dict_get row ''4. close'') \<Longrightarrow> stock_close row = dict_get row ''5. adjusted close''"
    by (simp add: stock_close_def py_or_def)
  have c1: "map_of row ''4. close'' = Some (PStr []) \<Longrightarrow> \<not> truthy (dict_get row ''4. close'')"
    by (simp add: dict_get_def)
  have c2: "map_of row ''4. close'' = Some (PInt 0) \<Longrightarrow> \<not> truthy (dict_get row ''4. close'')"
    by (simp add: dict_get_def)
  have v: "\<not> truthy (dict_get row ''6. volume'')
     \<Longrightarrow> stock_volume row = py_or (dict_get row ''5. volume'') (dict_get row ''volume'')"
    by (simp add: stock_volume_def py_or_def)
  have v1: "map_of row ''6. volume'' = Some (PStr []) \<Longrightarrow> \<not> truthy (dict_get row ''6. volume'')"
    by (simp add: dict_get_def)
  have v2: "map_of row ''6. volume'' = Some (PInt 0) \<Longrightarrow> \<not> truthy (dict_get row ''6. volume'')"
    by (simp add: dict_get_def)
  show ?thesis
    unfolding bar using c c1 c2 v v1 v2 by (auto simp add: stock_bar_def)
qed

theorem stock_falsy_fallback_witness:
  "map_of [(''1. open'', PStr ''100.0''), (''4. close'', PStr []),
           (''5. adjusted close'', PStr ''101.5''), (''6. volume'', PInt 0),
           (''5. volume'', PInt 900)] ''4. close'' = Some (PStr [])
   \<and> map_of [(''1. open'', PStr ''100.0''), (''4. close'', PStr []),
           (''5. adjusted close'', PStr ''101.5''), (''6. volume'', PInt 0),
           (''5. volume'', PInt 900)] ''6. volume'' = Some (PInt 0)
   \<and> ts_stock_passages ''IBM''
       [(''Time Series (Daily)'', Series [(''2024-01-02'',
          [(''1. open'', PStr ''100.0''), (''4. close'', PStr []),
           (''5. adjusted close'', PStr ''101.5''), (''6. volume'', PInt 0),
           (''5. volume'', PInt 900)])])] 365
     = Inr [''IBM daily bar on 2024-01-02: open 100.0, high None, low None, close 101.5, volume 900.'']"
proof -
  have n: "str_int 900 = ''900''"
    by code_simp
  show ?thesis
    using stock_falsy_fallback [of "[(''1. open'', PStr ''100.0''), (''4. close'', PStr []),
           (''5. adjusted close'', PStr ''101.5''), (''6. volume'', PInt 0),
           (''5. volume'', PInt 900)]" "''IBM''" "''2024-01-02''"]
    by (simp add: dict_get_def py_or_def n)
qed

text \<open>
  Claim C3. The claim promises a match of the time-series key in any letter case. On a
  stock response whose key is \<open>time series (daily)\<close> the stock passage builder returns no
  passage at all, its test \<open>"Time Series" in k\<close> being case-sensitive; the crypto passage
  builder, which lowers the key first, builds the daily bar from the same response.
\<close>

theorem ts_stock_key_case_sensitive:
  "ts_stock_passages ''IBM''
      [(''time series (daily)'', Series [(''2024-01-02'', [(''4. close'', PStr ''101.5'')])])] 365
     = Inr []
   \<and> ts_crypto_passages ''BTC'' ''USD''
      [(''time series (daily)'', Series [(''2024-01-02'', [(''4. close'', PStr ''101.5'')])])] 365
     = Inr [''BTC/USD on 2024-01-02: open None, high None, low None, close 101.5, volume None.'']"
proof -
  have k: "py_in ''time series'' (lower ''time series (daily)'')"
    by (simp add: lower_def lower_char_table)
  have s: "ts_stock_passages ''IBM''
      [(''time series (daily)'', Series [(''2024-01-02'', [(''4. close'', PStr ''101.5'')])])] 365
     = Inr []"
    by (simp add: ts_stock_passages_def)
  show ?thesis
    unfolding s ts_crypto_single [OF k]
    by (simp add: crypto_bar_def crypto_open_def crypto_high_def crypto_low_def crypto_close_def
        crypto_volume_def crypto_price_def market_key_def dict_get_def py_or_def)
qed

subsection \<open>Crypto daily bars\<close>

lemma str_nat_0: "str_nat 0 = ''0''"
  by (simp add: str_nat.simps)





section \<open>Properties of the indexer\<close>

lemma get_collection_contents: "contents (get_collection name w) = contents w"
  by (rule ext) (simp add: get_collection_def contents_def split: option.splits)

lemma get_collection_trace:
  "trace (get_collection name w)
     = trace w @ (if collections w name = None then [GetCollection name, CreateCollection name]
                  else [GetCollection name])"
  by (simp add: get_collection_def split: option.splits)

lemma get_collection_created:
  "collections w name = None \<or> collections w name = Some [] \<Longrightarrow>
     collections (get_collection name w) name = Some []"
  by (auto simp add: get_collection_def)

lemma contents_trace_update [simp]: "contents (w\<lparr>trace := t\<rparr>) = contents w"
  by (rule ext) (simp add: contents_def)

lemma chunk_rows_Nil: "chunk_rows [] chunker = []"
  by (simp add: chunk_rows_def)

lemma overview_rows:
  "chunk_rows [\<lparr>d_id = ''av/AAPL/overview'', d_text = ''AAPL Company Overview:'',
                 d_source = Some ''alpha_vantage:overview'', d_type = None\<rparr>] (\<lambda>t. [t])
     = [(''av/AAPL/overview#chunk0'', ''AAPL Company Overview:'',
         \<lparr>source = Some ''alpha_vantage:overview'', chunk_ix = Some 0,
          doc_id = Some ''av/AAPL/overview'', mtype = Some ''api/alpha_vantage''\<rparr>)]"
  by (simp add: chunk_rows_def enumerate_simps str_nat_0)

text \<open>
  Claim C6. When the chunk-text list is empty, as it is for an empty passage list, the
  indexer returns 0 with no side effect on what the store holds: every collection has
  the contents it had before the call, the calls recorded are the look-up of the
  collection (with its creation when it was absent) and the loading of the embedder, so
  no embedding is computed and no clear or insert is issued, and a collection that was
  absent or empty before the call is empty after it.
\<close>

theorem build_index_no_chunks:
  "map (fst \<circ> snd) (chunk_rows [] chunker) = []
   \<and> (map (fst \<circ> snd) (chunk_rows docs chunker) = [] \<longrightarrow>
        fst (build_index encode delete_where docs chunker name w) = Inr 0
        \<and> contents (snd (build_index encode delete_where docs chunker name w)) = contents w
        \<and> trace (snd (build_index encode delete_where docs chunker name w))
            = trace w
              @ (if collections w name = None then [GetCollection name, CreateCollection name]
                 else [GetCollection name])
              @ [LoadEmbedder]
        \<and> (collections w name = None \<or> collections w name = Some [] \<longrightarrow>
             collections (snd (build_index encode delete_where docs chunker name w)) name
               = Some []))"
  by (simp add: build_index_def Let_def get_collection_contents get_collection_trace
      get_collection_created chunk_rows_Nil)

theorem build_index_no_chunks_witness:
  "map (fst \<circ> snd) (chunk_rows [] (\<lambda>t. [t])) = []
   \<and> build_index (take 4) (\<lambda>col. None) [] (\<lambda>t. [t]) ''docs''
        \<lparr>collections = Map.empty, trace = []\<rparr>
     = (Inr 0, \<lparr>collections = [''docs'' \<mapsto> ([] :: string entry list)],
                trace = [GetCollection ''docs'', CreateCollection ''docs'', LoadEmbedder]\<rparr>)
   \<and> build_index (take 4) (\<lambda>col. None) [] (\<lambda>t. [t]) ''docs''
        \<lparr>collections = [''docs'' \<mapsto> ([] :: string entry list)], trace = []\<rparr>
     = (Inr 0, \<lparr>collections = [''docs'' \<mapsto> ([] :: string entry list)],
                trace = [GetCollection ''docs'', LoadEmbedder]\<rparr>)"
  using
    build_index_no_chunks [of "\<lambda>t. [t]" "[]" "take 4" "\<lambda>col. None" "''docs''"
      "\<lparr>collections = Map.empty, trace = []\<rparr>"]
    build_index_no_chunks [of "\<lambda>t. [t]" "[]" "take 4" "\<lambda>col. None" "''docs''"
      "\<lparr>collections = [''docs'' \<mapsto> ([] :: string entry list)], trace = []\<rparr>"]
  by (simp add: chunk_rows_def build_index_def get_collection_def)

text \<open>
  Claim C5. The claim promises that two calls in succession leave exactly the chunks of
  the second call, with nothing of the prior contents. With the store rejecting the empty
  filter of the clear, which the indexer catches and passes over, a collection that
  holds a chunk of another passage still holds it after two calls of the indexer for one
  passage, next to the one chunk of that passage; both calls return 1.
\<close>

theorem build_index_twice_keeps_prior:
  "fst (build_index (take 4) (\<lambda>col. None)
          [\<lparr>d_id = ''av/AAPL/overview'', d_text = ''AAPL Company Overview:'',
            d_source = Some ''alpha_vantage:overview'', d_type = None\<rparr>]
          (\<lambda>t. [t]) ''docs''
          (\<lparr>collections = [''docs'' \<mapsto> [\<lparr>e_id = ''av/MSFT/overview#chunk0'', e_embedding = ''MSFT'',
            e_document = ''MSFT Company Overview:'',
            e_metadata = \<lparr>source = Some ''alpha_vantage:overview'', chunk_ix = Some 0,
                          doc_id = Some ''av/MSFT/overview'',
                          mtype = Some ''api/alpha_vantage''\<rparr>\<rparr>]], trace = []\<rparr>)) = Inr 1
   \<and> fst (build_index (take 4) (\<lambda>col. None)
          [\<lparr>d_id = ''av/AAPL/overview'', d_text = ''AAPL Company Overview:'',
            d_source = Some ''alpha_vantage:overview'', d_type = None\<rparr>]
          (\<lambda>t. [t]) ''docs''
          (snd (build_index (take 4) (\<lambda>col. None)
          [\<lparr>d_id = ''av/AAPL/overview'', d_text = ''AAPL Company Overview:'',
            d_source = Some ''alpha_vantage:overview'', d_type = None\<rparr>]
          (\<lambda>t. [t]) ''docs''
          (\<lparr>collections = [''docs'' \<mapsto> [\<lparr>e_id = ''av/MSFT/overview#chunk0'', e_embedding = ''MSFT'',
            e_document = ''MSFT Company Overview:'',
            e_metadata = \<lparr>source = Some ''alpha_vantage:overview'', chunk_ix = Some 0,
                          doc_id = Some ''av/MSFT/overview'',
                          mtype = Some ''api/alpha_vantage''\<rparr>\<rparr>]], trace = []\<rparr>)))) = Inr 1
   \<and> collections
       (snd (build_index (take 4) (\<lambda>col. None)
          [\<lparr>d_id = ''av/AAPL/overview'', d_text = ''AAPL Company Overview:'',
            d_source = Some ''alpha_vantage:overview'', d_type = None\<rparr>]
          (\<lambda>t. [t]) ''docs''
          (snd (build_index (take 4) (\<lambda>col. None)
          [\<lparr>d_id = ''av/AAPL/overview'', d_text = ''AAPL Company Overview:'',
            d_source = Some ''alpha_vantage:overview'', d_type = None\<rparr>]
          (\<lambda>t. [t]) ''docs''
          (\<lparr>collections = [''docs'' \<mapsto> [\<lparr>e_id = ''av/MSFT/overview#chunk0'', e_embedding = ''MSFT'',
            e_document = ''MSFT Company Overview:'',
            e_metadata = \<lparr>source = Some ''alpha_vantage:overview'', chunk_ix = Some 0,
                          doc_id = Some ''av/MSFT/overview'',
                          mtype = Some ''api/alpha_vantage''\<rparr>\<rparr>]], trace = []\<rparr>)))))
       ''docs''
     = Some [\<lparr>e_id = ''av/MSFT/overview#chunk0'', e_embedding = ''MSFT'',
            e_document = ''MSFT Company Overview:'',
            e_metadata = \<lparr>source = Some ''alpha_vantage:overview'', chunk_ix = Some 0,
                          doc_id = Some ''av/MSFT/overview'',
                          mtype = Some ''api/alpha_vantage''\<rparr>\<rparr>,
             \<lparr>e_id = ''av/AAPL/overview#chunk0'', e_embedding = ''AAPL'',
            e_document = ''AAPL Company Overview:'',
            e_metadata = \<lparr>source = Some ''alpha_vantage:overview'', chunk_ix = Some 0,
                          doc_id = Some ''av/AAPL/overview'',
                          mtype = Some ''api/alpha_vantage''\<rparr>\<rparr>]
   \<and> new_entries (take 4)
          [\<lparr>d_id = ''av/AAPL/overview'', d_text = ''AAPL Company Overview:'',
            d_source = Some ''alpha_vantage:overview'', d_type = None\<rparr>]
          (\<lambda>t. [t])
     = [\<lparr>e_id = ''av/AAPL/overview#chunk0'', e_embedding = ''AAPL'',
            e_document = ''AAPL Company Overview:'',
            e_metadata = \<lparr>source = Some ''alpha_vantage:overview'', chunk_ix = Some 0,
                          doc_id = Some ''av/AAPL/overview'',
                          mtype = Some ''api/alpha_vantage''\<rparr>\<rparr>]"
  by (auto simp add: build_index_def Let_def get_collection_def contents_def col_add_def
      overview_rows new_entries_def)

end
